theory Spec2Isabelle
  imports Complex_Main
begin

section \<open>Python values the module works with\<close>

text \<open>
  Exceptions are values. \<open>KeyboardInterrupt\<close> and \<open>SystemExit\<close> derive from
  \<open>BaseException\<close> only, so a clause \<open>except Exception\<close> does not catch them;
  \<open>sys.exit(n)\<close> is \<open>raise SystemExit(n)\<close>.
\<close>

datatype py_exc =
    ValueError string
  | AssertionError string
  | TypeError string
  | IndexError string
  | RuntimeError string
  | OSError string
  | OtherException string
  | KeyboardInterrupt
  | SystemExit int

fun is_Exception :: "py_exc \<Rightarrow> bool" where
  "is_Exception KeyboardInterrupt = False"
| "is_Exception (SystemExit code) = False"
| "is_Exception e = True"

fun is_OSError :: "py_exc \<Rightarrow> bool" where
  "is_OSError (OSError m) = True"
| "is_OSError e = False"

text \<open>
  A config flag holds either a real boolean or the placeholder object of class
  \<open>DoNotUseInIfStmt\<close>, whose \<open>__bool__\<close> and \<open>__len__\<close> raise \<open>ValueError\<close>.
  \<open>py_bool\<close> is Python's truth test of a flag, \<open>py_len\<close> is \<open>len(flag)\<close>
  (a \<open>bool\<close> has no length, so \<open>len\<close> of one raises \<open>TypeError\<close>).
\<close>

datatype flag = DoNotUseInIfStmt | Bool bool

fun py_bool :: "flag \<Rightarrow> py_exc + bool" where
  "py_bool DoNotUseInIfStmt = Inl (ValueError ''Should not be used'')"
| "py_bool (Bool b) = Inr b"

fun py_len :: "flag \<Rightarrow> py_exc + nat" where
  "py_len DoNotUseInIfStmt = Inl (ValueError ''Should not be used'')"
| "py_len (Bool b) = Inl (TypeError ''object of type 'bool' has no len()'')"

section \<open>Console output\<close>

text \<open>
  What the module writes is recorded as a list of events, oldest first. The function
  \<open>coloured\<close> lives in the sibling module \<open>colour\<close>; a call
  \<open>coloured(c, parts, sep=s)\<close> is kept unevaluated as \<open>Coloured c parts s\<close>.
  \<open>Print f objs s\<close> is \<open>print(*objs, sep=s, file=f, flush=True)\<close>.
\<close>

datatype AnsiColour = cyan | blue | magenta | red | green

datatype obj = Str string | Exc py_exc

datatype printable = Plain string | Coloured AnsiColour "obj list" string

datatype stream = Stdout | Stderr

datatype Thread = Thread (ident: nat) (name: string)

datatype event =
    Print stream "printable list" string
  | PrintStack
  | ReadInput string
  | OpenSocket
  | CloseSocket
  | ThreadStart Thread
  | ThreadJoin Thread

definition maybe_add_space :: "string \<Rightarrow> string \<Rightarrow> obj list" where
  "maybe_add_space msg sep = (if sep = [] then [Str msg, Str '' ''] else [Str msg])"

definition status_update :: "obj list \<Rightarrow> string \<Rightarrow> event list" where
  "status_update args sep = [Print Stdout [Coloured cyan args sep] '' '']"

definition fixit_message :: "obj list \<Rightarrow> string \<Rightarrow> event list" where
  "fixit_message args sep =
     [Print Stderr [Coloured blue (maybe_add_space ''Possible solution:'' sep @ args) sep] '' '']"

text \<open>\<open>if fixit_hint: fixit_message(fixit_hint)\<close>: \<open>None\<close> and the empty string are falsy.\<close>

fun fixit_if :: "string option \<Rightarrow> event list" where
  "fixit_if None = []"
| "fixit_if (Some h) = (if h = [] then [] else fixit_message [Str h] '' '')"

definition warning_message :: "obj list \<Rightarrow> string \<Rightarrow> string option \<Rightarrow> event list" where
  "warning_message args sep fixit_hint =
     [Print Stderr [Coloured magenta (maybe_add_space ''Warning:'' sep @ args) sep] '' '']
     @ fixit_if fixit_hint"

section \<open>The error-context stack and the reporters that read it\<close>

text \<open>
  \<open>_ERROR_CONTEXT\<close> is a list of strings, the top of the stack last. The formatter
  \<open>_add_error_context\<close> (here \<open>fmt_add_error_context\<close>, an Isabelle name cannot start
  with an underscore) reads the top frame only. \<open>esc\<close> stands for
  \<open>AnsiColour.red.escape_sequence()\<close>, defined in the sibling module.
\<close>

type_synonym ERROR_CONTEXT = "string list"

definition fmt_add_error_context ::
  "string \<Rightarrow> ERROR_CONTEXT \<Rightarrow> string \<Rightarrow> obj list \<Rightarrow> string \<Rightarrow> printable" where
  "fmt_add_error_context esc ctx prefix args sep =
     (if ctx \<noteq> []
      then Coloured red (maybe_add_space (prefix @ '' '' @ last ctx @ esc @ '':'') sep @ args) sep
      else Coloured red (maybe_add_space (prefix @ '':'') sep @ args) sep)"

definition error_message ::
  "string \<Rightarrow> ERROR_CONTEXT \<Rightarrow> obj list \<Rightarrow> string \<Rightarrow> string option \<Rightarrow> event list" where
  "error_message esc ctx args sep fixit_hint =
     [Print Stderr [fmt_add_error_context esc ctx ''Error'' args sep] '' ''] @ fixit_if fixit_hint"

definition default_exit_code :: int where
  "default_exit_code = 3"

text \<open>
  \<open>fatal_error(*args, sep, fixit_hint, fatal_when_pretending, exit_code, pretend)\<close>.
  The result is what the caller sees (\<open>Inr ()\<close>: the call returned; \<open>Inl e\<close>: it
  raised \<open>e\<close>) together with the events printed.
\<close>

definition fatal_error ::
  "string \<Rightarrow> ERROR_CONTEXT \<Rightarrow> obj list \<Rightarrow> string \<Rightarrow> string option \<Rightarrow> bool \<Rightarrow> int \<Rightarrow> flag
     \<Rightarrow> (py_exc + unit) \<times> event list" where
  "fatal_error esc ctx args sep fixit_hint fatal_when_pretending exit_code pretend =
     (case py_bool pretend of
        Inl e \<Rightarrow> (Inl e, [])
      | Inr True \<Rightarrow>
          (let out = [Print Stderr [fmt_add_error_context esc ctx ''Potential fatal error'' args sep] '' '']
                     @ fixit_if fixit_hint
           in if fatal_when_pretending
              then (Inl (SystemExit exit_code), out @ [PrintStack])
              else (Inr (), out))
      | Inr False \<Rightarrow>
          (Inl (SystemExit exit_code),
           [Print Stderr [fmt_add_error_context esc ctx ''Fatal error'' args sep] '' '']
           @ fixit_if fixit_hint))"

text \<open>
  \<open>add_error_context(context)\<close> is a generator-based context manager. The body of the
  \<open>with\<close> statement is any code: it is given the stack and returns its outcome and the
  stack it leaves (it may open and fail nested scopes). After a normal body the
  generator resumes after \<open>yield\<close> and runs \<open>_ERROR_CONTEXT.pop()\<close>, which removes the
  last element, whatever it is, and raises \<open>IndexError\<close> on an empty list; that
  \<open>IndexError\<close> is an \<open>Exception\<close>, so the \<open>except\<close> clause raises it again. A
  failing body throws its exception into the generator at \<open>yield\<close>: an
  \<open>Exception\<close> is caught and raised again by \<open>raise e\<close>, anything else is not
  caught; either way the \<open>pop\<close> is skipped.
\<close>

definition add_error_context ::
  "string \<Rightarrow> (ERROR_CONTEXT \<Rightarrow> (py_exc + 'a) \<times> ERROR_CONTEXT)
     \<Rightarrow> ERROR_CONTEXT \<Rightarrow> (py_exc + 'a) \<times> ERROR_CONTEXT" where
  "add_error_context context body stack =
     (case body (stack @ [context]) of
        (Inr v, stack') \<Rightarrow>
          (if stack' = [] then (Inl (IndexError ''pop from empty list''), stack')
           else (Inr v, butlast stack'))
      | (Inl e, stack') \<Rightarrow>
          (if is_Exception e then (Inl e, stack') else (Inl e, stack')))"

section \<open>Floating-point timestamps\<close>

text \<open>
  \<open>time.time()\<close> returns a Python float, an IEEE 754 binary64 value: a finite
  number (kept as the rational it denotes; both zeros are \<open>Finite 0\<close>), an infinity
  or a NaN. The sum of two finite values is the exact sum rounded to the nearest
  binary64 value, ties to the even significand: 53 significant bits, the least
  exponent of a unit in the last place \<open>-1074\<close>, and an infinity when the rounded
  value reaches \<open>2 ^ 1024\<close>.
\<close>

datatype float64 = Finite rat | PosInf | NegInf | NaN

text \<open>The number of binary digits of a positive integer.\<close>

function bit_length :: "int \<Rightarrow> int" where
  "bit_length n = (if n \<le> 0 then 0 else 1 + bit_length (n div 2))"
  by pat_completeness auto
termination
  by (relation "measure nat") auto

declare bit_length.simps [simp del]

definition pow2 :: "int \<Rightarrow> rat" where
  "pow2 e = (if 0 \<le> e then 2 ^ nat e else 1 / 2 ^ nat (- e))"

text \<open>For \<open>a > 0\<close>, the integer \<open>k\<close> with \<open>2 ^ k \<le> a < 2 ^ (k + 1)\<close>.\<close>

definition ilog2 :: "rat \<Rightarrow> int" where
  "ilog2 a =
     (if 1 \<le> a then bit_length \<lfloor>a\<rfloor> - 1
      else - bit_length (\<lceil>1 / a\<rceil> - 1))"

definition round_half_even :: "rat \<Rightarrow> int" where
  "round_half_even q =
     (let f = \<lfloor>q\<rfloor>; d = q - of_int f
      in if d < 1 / 2 then f else if 1 / 2 < d then f + 1 else if even f then f else f + 1)"

definition round64 :: "rat \<Rightarrow> float64" where
  "round64 x =
     (if x = 0 then Finite 0
      else
        (let a = \<bar>x\<bar>;
             e = max (ilog2 a - 52) (- 1074);
             r = of_int (round_half_even (a / pow2 e)) * pow2 e
         in if 2 ^ 1024 \<le> r then (if 0 < x then PosInf else NegInf)
            else Finite (if 0 < x then r else - r)))"

text \<open>\<open>x + y\<close>, \<open>x < y\<close> and the truth test \<open>bool(x)\<close> of floats.\<close>

fun float_add :: "float64 \<Rightarrow> float64 \<Rightarrow> float64" where
  "float_add NaN y = NaN"
| "float_add x NaN = NaN"
| "float_add PosInf NegInf = NaN"
| "float_add NegInf PosInf = NaN"
| "float_add PosInf y = PosInf"
| "float_add x PosInf = PosInf"
| "float_add NegInf y = NegInf"
| "float_add x NegInf = NegInf"
| "float_add (Finite a) (Finite b) = round64 (a + b)"

fun float_lt :: "float64 \<Rightarrow> float64 \<Rightarrow> bool" where
  "float_lt NaN y = False"
| "float_lt x NaN = False"
| "float_lt PosInf y = False"
| "float_lt x NegInf = False"
| "float_lt NegInf y = True"
| "float_lt x PosInf = True"
| "float_lt (Finite a) (Finite b) = (a < b)"

fun float_truthy :: "float64 \<Rightarrow> bool" where
  "float_truthy (Finite a) = (a \<noteq> 0)"
| "float_truthy x = True"

section \<open>The global configuration\<close>

record ConfigBase =
  quiet :: flag
  verbose :: flag
  pretend :: flag
  force :: flag
  presume_connectivity :: bool
  internet_connection_last_checked_at :: "float64 option"
  internet_connection_last_check_result :: bool
  TEST_MODE :: bool

text \<open>
  \<open>ConfigBase.__init__(pretend, verbose, quiet, force)\<close>. \<open>TEST_MODE\<close> is a class
  attribute with value \<open>False\<close> until an instance attribute is assigned.
\<close>

definition ConfigBase_init :: "flag \<Rightarrow> flag \<Rightarrow> flag \<Rightarrow> flag \<Rightarrow> ConfigBase" where
  "ConfigBase_init p v q f =
     \<lparr> quiet = q, verbose = v, pretend = p, force = f,
       presume_connectivity = False,
       internet_connection_last_checked_at = None,
       internet_connection_last_check_result = False,
       TEST_MODE = False \<rparr>"

text \<open>The module's global variable, and its value when the module has just been loaded.\<close>

record globals =
  GlobalConfig :: ConfigBase

definition initial_globals :: globals where
  "initial_globals =
     \<lparr> GlobalConfig =
         ConfigBase_init DoNotUseInIfStmt DoNotUseInIfStmt DoNotUseInIfStmt DoNotUseInIfStmt \<rparr>"

text \<open>
  \<open>init_global_config(config, test_mode)\<close>: the two assignments come first, the
  assertion last, so the new instance is installed also when the assertion fails.
  \<open>a and b\<close> tests \<open>a\<close> first and looks at \<open>b\<close> only when \<open>a\<close> is true. The
  value that was installed before is never read.
\<close>

definition init_global_config ::
  "ConfigBase \<Rightarrow> bool \<Rightarrow> globals \<Rightarrow> (py_exc + unit) \<times> globals" where
  "init_global_config config test_mode g =
     (let g' = g\<lparr>GlobalConfig := config\<lparr>TEST_MODE := test_mode\<rparr>\<rparr> in
      case py_bool (verbose (GlobalConfig g')) of
        Inl e \<Rightarrow> (Inl e, g')
      | Inr False \<Rightarrow> (Inr (), g')
      | Inr True \<Rightarrow>
          (case py_bool (quiet (GlobalConfig g')) of
             Inl e \<Rightarrow> (Inl e, g')
           | Inr True \<Rightarrow> (Inl (AssertionError ''mutually exclusive''), g')
           | Inr False \<Rightarrow> (Inr (), g')))"

definition get_global_config :: "globals \<Rightarrow> ConfigBase" where
  "get_global_config g = GlobalConfig g"

section \<open>The yes/no prompt\<close>

definition startswith :: "string \<Rightarrow> string \<Rightarrow> bool" where
  "startswith s p = (take (length p) s = p)"

text \<open>\<open>str.lower()\<close> on the ASCII letters.\<close>

definition lower_char :: "char \<Rightarrow> char" where
  "lower_char c =
     (if (65::nat) \<le> of_char c \<and> of_char c \<le> (90::nat)
      then char_of (of_char c + (32::nat)) else c)"

definition lower :: "string \<Rightarrow> string" where
  "lower s = map lower_char s"

text \<open>
  \<open>query_yes_no(config, message, default_result, force_result, yes_no_str)\<close>. The
  environment gives \<open>isatty\<close>, the answer of \<open>sys.__stdin__.isatty()\<close>, and
  \<open>reply\<close>, the line \<open>input\<close> returns; \<open>ReadInput p\<close> is the call \<open>input(p)\<close>.
\<close>

definition query_yes_no ::
  "ConfigBase \<Rightarrow> string \<Rightarrow> bool \<Rightarrow> bool \<Rightarrow> string option \<Rightarrow> bool \<Rightarrow> string
     \<Rightarrow> (py_exc + bool) \<times> event list" where
  "query_yes_no config message default_result force_result yes_no_str isatty reply =
     (let yn = (case yes_no_str of
                  None \<Rightarrow> (if default_result then '' [Y]/n '' else '' y/[N] '')
                | Some s \<Rightarrow> s);
          forced = [Print Stdout
                      [Plain (message @ yn),
                       Coloured green [Str (if force_result then ''y'' else ''n'')] '' ''] []]
      in case py_bool (pretend config) of
           Inl e \<Rightarrow> (Inl e, [])
         | Inr True \<Rightarrow> (Inr force_result, forced)
         | Inr False \<Rightarrow>
             (case py_bool (force config) of
                Inl e \<Rightarrow> (Inl e, [])
              | Inr True \<Rightarrow> (Inr force_result, forced)
              | Inr False \<Rightarrow>
                  (if \<not> isatty then (Inr default_result, [])
                   else if default_result
                   then (Inr (\<not> startswith reply ''n''), [ReadInput (message @ yn)])
                   else (Inr (startswith (lower reply) ''y''), [ReadInput (message @ yn)]))))"

section \<open>The connectivity probe\<close>

text \<open>
  What the three statements of the \<open>try\<close> block do is the network's business:
  \<open>Connected\<close> when all three return, \<open>Raised created e\<close> when one of them raises
  \<open>e\<close>, where \<open>created\<close> tells whether \<open>socket.socket\<close> had returned, so that
  \<open>x\<close> holds a socket. \<open>OpenSocket\<close> marks the call of \<open>socket.socket\<close>,
  \<open>CloseSocket\<close> the call \<open>x.close()\<close>.
\<close>

datatype probe = Connected | Raised bool py_exc

fun socket_created :: "probe \<Rightarrow> bool" where
  "socket_created Connected = True"
| "socket_created (Raised created ex) = created"

text \<open>
  The cache test: \<open>if config.internet_connection_last_checked_at:\<close> is a truth test
  of an optional float, false for \<open>None\<close> and for a zero; inside it,
  \<open>current_check_time < config.internet_connection_last_checked_at + 60.0\<close>, a
  float sum and a float comparison.
\<close>

definition cache_fresh :: "ConfigBase \<Rightarrow> float64 \<Rightarrow> bool" where
  "cache_fresh config current_check_time =
     (case internet_connection_last_checked_at config of
        None \<Rightarrow> False
      | Some checked \<Rightarrow>
          float_truthy checked \<and> float_lt current_check_time (float_add checked (Finite 60)))"

text \<open>
  The \<open>try\<close> statement up to its \<open>finally\<close> clause: the exception still pending
  when the \<open>finally\<close> clause starts, the variable \<open>result\<close>, whether \<open>x\<close> holds
  a socket, and the events. \<open>result\<close> is \<open>False\<close> from before the \<open>try\<close>, so it
  is \<open>False\<close> also when \<open>fatal_error\<close> raises before the handler's assignment.
\<close>

definition probe_try ::
  "string \<Rightarrow> ERROR_CONTEXT \<Rightarrow> ConfigBase \<Rightarrow> probe
     \<Rightarrow> py_exc option \<times> bool \<times> bool \<times> event list" where
  "probe_try esc ctx config net =
     (case net of
        Connected \<Rightarrow> (None, True, True, [OpenSocket])
      | Raised created ex \<Rightarrow>
          (if is_OSError ex then (None, False, created, [OpenSocket])
           else if is_Exception ex then
             (case fatal_error esc ctx
                     [Str ''Something went wrong while checking for internet connection'', Exc ex]
                     '' '' None False default_exit_code (pretend config) of
                (Inl e, out) \<Rightarrow> (Some e, False, created, OpenSocket # out)
              | (Inr u, out) \<Rightarrow> (None, False, created, OpenSocket # out))
           else (Some ex, False, created, [OpenSocket])))"

text \<open>A \<open>return\<close> inside a \<open>finally\<close> clause discards the pending exception.\<close>

definition finally_return :: "py_exc option \<Rightarrow> 'a \<Rightarrow> py_exc + 'a" where
  "finally_return pending v = Inr v"

text \<open>
  \<open>have_working_internet_connection(config)\<close>, with \<open>now\<close> the value of
  \<open>time.time()\<close> and \<open>closing\<close> what \<open>x.close()\<close> raises, if anything. The
  config is an object the function writes to; the model returns it updated. In the
  \<open>finally\<close> clause \<open>x.close()\<close> comes first: when it raises, its exception
  replaces whatever was pending and leaves the function before the two assignments to
  the config and before the \<open>return\<close>.
\<close>

definition have_working_internet_connection ::
  "string \<Rightarrow> ERROR_CONTEXT \<Rightarrow> ConfigBase \<Rightarrow> float64 \<Rightarrow> probe \<Rightarrow> py_exc option
     \<Rightarrow> (py_exc + bool) \<times> ConfigBase \<times> event list" where
  "have_working_internet_connection esc ctx config now net closing =
     (if TEST_MODE config \<or> presume_connectivity config then (Inr True, config, [])
      else if cache_fresh config now
      then (Inr (internet_connection_last_check_result config), config, [])
      else
        (case probe_try esc ctx config net of
           (pending, result, x, out) \<Rightarrow>
             (case (if x then closing else None) of
                Some e \<Rightarrow> (Inl e, config, out @ [CloseSocket])
              | None \<Rightarrow>
                  (finally_return pending result,
                   config\<lparr>internet_connection_last_check_result := result,
                           internet_connection_last_checked_at := Some now\<rparr>,
                   out @ (if x then [CloseSocket] else [])))))"

section \<open>ThreadJoiner\<close>

text \<open>
  A \<open>threading.Thread\<close> is started at most once: \<open>start()\<close> on a thread that has
  been started raises \<open>RuntimeError\<close>, and so does \<open>join()\<close> on one that has not.
  \<open>join()\<close> returns when the thread has terminated. The world holds each handle's
  stage and the trace of events. Whether a started thread is still running when
  \<open>is_alive()\<close> is asked is the scheduler's business: \<open>running\<close> gives the answer.
\<close>

datatype lifecycle = NotStarted | Started | Joined

record world =
  lifecycle_of :: "Thread \<Rightarrow> lifecycle"
  trace :: "event list"

definition Thread_start :: "Thread \<Rightarrow> world \<Rightarrow> py_exc option \<times> world" where
  "Thread_start t w =
     (if lifecycle_of w t \<noteq> NotStarted
      then (Some (RuntimeError ''threads can only be started once''), w)
      else (None, w\<lparr>lifecycle_of := (lifecycle_of w)(t := Started),
                     trace := trace w @ [ThreadStart t]\<rparr>))"

definition Thread_is_alive :: "(Thread \<Rightarrow> bool) \<Rightarrow> Thread \<Rightarrow> world \<Rightarrow> bool" where
  "Thread_is_alive running t w = (lifecycle_of w t = Started \<and> running t)"

definition Thread_join :: "Thread \<Rightarrow> world \<Rightarrow> py_exc option \<times> world" where
  "Thread_join t w =
     (if lifecycle_of w t = NotStarted
      then (Some (RuntimeError ''cannot join thread before it is started''), w)
      else (None, w\<lparr>lifecycle_of := (lifecycle_of w)(t := Joined),
                     trace := trace w @ [ThreadJoin t]\<rparr>))"

record ThreadJoiner =
  threads :: "Thread list"

text \<open>The constructor's argument: \<open>None\<close>, one thread, or a list of threads.\<close>

datatype threads_arg = NoThreads | OneThread Thread | ThreadList "Thread list"

fun ThreadJoiner_init :: "threads_arg \<Rightarrow> ThreadJoiner" where
  "ThreadJoiner_init (ThreadList ts) = \<lparr>threads = ts\<rparr>"
| "ThreadJoiner_init NoThreads = \<lparr>threads = []\<rparr>"
| "ThreadJoiner_init (OneThread t) = \<lparr>threads = [t]\<rparr>"

text \<open>\<open>__enter__\<close>: the loop stops at the first \<open>start()\<close> that raises.\<close>

fun start_threads :: "Thread list \<Rightarrow> world \<Rightarrow> py_exc option \<times> world" where
  "start_threads [] w = (None, w)"
| "start_threads (t # ts) w =
     (case Thread_start t w of
        (Some e, w') \<Rightarrow> (Some e, w')
      | (None, w') \<Rightarrow> start_threads ts w')"

definition ThreadJoiner_enter :: "ThreadJoiner \<Rightarrow> world \<Rightarrow> py_exc option \<times> world" where
  "ThreadJoiner_enter self w = start_threads (threads self) w"

text \<open>\<open>__exit__\<close>: \<open>status_update("Waiting for '", thread.name, "' to complete", sep="")\<close>.\<close>

definition waiting_for :: "Thread \<Rightarrow> event list" where
  "waiting_for t =
     status_update [Str (''Waiting for '' @ [CHR 0x27]), Str (name t),
                    Str (CHR 0x27 # '' to complete'')] []"

fun join_threads :: "(Thread \<Rightarrow> bool) \<Rightarrow> Thread list \<Rightarrow> world \<Rightarrow> py_exc option \<times> world" where
  "join_threads running [] w = (None, w)"
| "join_threads running (t # ts) w =
     (let w1 = (if Thread_is_alive running t w
                then w\<lparr>trace := trace w @ waiting_for t\<rparr> else w)
      in case Thread_join t w1 of
           (Some e, w2) \<Rightarrow> (Some e, w2)
         | (None, w2) \<Rightarrow> join_threads running ts w2)"

definition ThreadJoiner_exit ::
  "(Thread \<Rightarrow> bool) \<Rightarrow> ThreadJoiner \<Rightarrow> world \<Rightarrow> py_exc option \<times> world" where
  "ThreadJoiner_exit running self w = join_threads running (threads self) w"

definition ThreadJoiner_add :: "ThreadJoiner \<Rightarrow> ThreadJoiner \<Rightarrow> ThreadJoiner" where
  "ThreadJoiner_add self other = ThreadJoiner_init (ThreadList (threads self @ threads other))"

definition ThreadJoiner_iadd :: "ThreadJoiner \<Rightarrow> ThreadJoiner \<Rightarrow> ThreadJoiner" where
  "ThreadJoiner_iadd self other = self\<lparr>threads := threads self @ threads other\<rparr>"

text \<open>
  The statement \<open>with joiner: body\<close>. When \<open>__enter__\<close> raises, neither the body nor
  \<open>__exit__\<close> runs. Otherwise the body runs (its outcome \<open>body_result\<close>, what it
  printed \<open>body_events\<close>), then \<open>__exit__\<close> in either case; \<open>__exit__\<close> returns
  \<open>None\<close>, so a failure of the body goes on to the caller.
\<close>

definition with_ThreadJoiner ::
  "ThreadJoiner \<Rightarrow> (Thread \<Rightarrow> bool) \<Rightarrow> (py_exc + 'a) \<Rightarrow> event list \<Rightarrow> world
     \<Rightarrow> (py_exc + 'a) \<times> world" where
  "with_ThreadJoiner self running body_result body_events w =
     (case ThreadJoiner_enter self w of
        (Some e, w1) \<Rightarrow> (Inl e, w1)
      | (None, w1) \<Rightarrow>
          (case ThreadJoiner_exit running self (w1\<lparr>trace := trace w1 @ body_events\<rparr>) of
             (Some e, w2) \<Rightarrow> (Inl e, w2)
           | (None, w2) \<Rightarrow> (body_result, w2)))"

section \<open>Properties\<close>

subsection \<open>The fatal path\<close>

text \<open>
  C1. For every message, separator, fixit hint, exit code and error-context stack:
  with \<open>pretend\<close> true and \<open>fatal_when_pretending\<close> false, \<open>fatal_error\<close> prints
  on the error stream the red line that starts with "Potential fatal error" (followed by
  the top context frame, if there is one) and carries the message, then the hint line if
  a non-empty hint is given, and returns to its caller; with both true it prints the
  same, then the call stack, and raises \<open>SystemExit\<close> with the given code; with
  \<open>pretend\<close> false it prints the same lines with "Fatal error" in place of
  "Potential fatal error" and raises \<open>SystemExit\<close> with the given code, whatever
  \<open>fatal_when_pretending\<close> is. The default code is 3.
\<close>

theorem fatal_error_contract:
  "fatal_error esc ctx args sep hint False code (Bool True) =
     (Inr (),
      [Print Stderr
         [Coloured red
            ((if sep = []
              then [Str (if ctx = [] then ''Potential fatal error:''
                         else ''Potential fatal error '' @ last ctx @ esc @ '':''), Str '' '']
              else [Str (if ctx = [] then ''Potential fatal error:''
                         else ''Potential fatal error '' @ last ctx @ esc @ '':'')])
             @ args) sep] '' '']
      @ (case hint of
           None \<Rightarrow> []
         | Some h \<Rightarrow>
             if h = [] then []
             else [Print Stderr [Coloured blue [Str ''Possible solution:'', Str h] '' ''] '' '']))
   \<and> fatal_error esc ctx args sep hint True code (Bool True) =
     (Inl (SystemExit code),
      [Print Stderr
         [Coloured red
            ((if sep = []
              then [Str (if ctx = [] then ''Potential fatal error:''
                         else ''Potential fatal error '' @ last ctx @ esc @ '':''), Str '' '']
              else [Str (if ctx = [] then ''Potential fatal error:''
                         else ''Potential fatal error '' @ last ctx @ esc @ '':'')])
             @ args) sep] '' '']
      @ (case hint of
           None \<Rightarrow> []
         | Some h \<Rightarrow>
             if h = [] then []
             else [Print Stderr [Coloured blue [Str ''Possible solution:'', Str h] '' ''] '' ''])
      @ [PrintStack])
   \<and> fatal_error esc ctx args sep hint fwp code (Bool False) =
     (Inl (SystemExit code),
      [Print Stderr
         [Coloured red
            ((if sep = []
              then [Str (if ctx = [] then ''Fatal error:''
                         else ''Fatal error '' @ last ctx @ esc @ '':''), Str '' '']
              else [Str (if ctx = [] then ''Fatal error:''
                         else ''Fatal error '' @ last ctx @ esc @ '':'')])
             @ args) sep] '' '']
      @ (case hint of
           None \<Rightarrow> []
         | Some h \<Rightarrow>
             if h = [] then []
             else [Print Stderr [Coloured blue [Str ''Possible solution:'', Str h] '' ''] '' '']))
   \<and> fst (fatal_error esc ctx args sep hint fwp default_exit_code (Bool False)) =
     Inl (SystemExit 3)"
  by (cases hint)
     (simp_all add: fatal_error_def default_exit_code_def fmt_add_error_context_def
        maybe_add_space_def fixit_message_def)

theorem fatal_error_contract_witness:
  "fatal_error ''!'' [''build'', ''llvm''] [Str ''disk'', Str ''full''] '' '' (Some ''free space'')
       False 7 (Bool True) =
     (Inr (),
      [Print Stderr
         [Coloured red [Str ''Potential fatal error llvm!:'', Str ''disk'', Str ''full''] '' '']
         '' '',
       Print Stderr [Coloured blue [Str ''Possible solution:'', Str ''free space''] '' ''] '' ''])
   \<and> fatal_error ''!'' [] [Str ''disk'', Str ''full''] [] None True 7 (Bool True) =
     (Inl (SystemExit 7),
      [Print Stderr
         [Coloured red [Str ''Potential fatal error:'', Str '' '', Str ''disk'', Str ''full''] []]
         '' '',
       PrintStack])
   \<and> fatal_error ''!'' [] [Str ''disk'', Str ''full''] '' '' None False 7 (Bool False) =
     (Inl (SystemExit 7),
      [Print Stderr [Coloured red [Str ''Fatal error:'', Str ''disk'', Str ''full''] '' ''] '' ''])"
  using fatal_error_contract
          [of "''!''" "[''build'', ''llvm'']" "[Str ''disk'', Str ''full'']" "'' ''"
              "Some ''free space''" 7 False]
        fatal_error_contract
          [of "''!''" "[]" "[Str ''disk'', Str ''full'']" "[]" None 7 False]
        fatal_error_contract
          [of "''!''" "[]" "[Str ''disk'', Str ''full'']" "'' ''" None 7 False]
  by simp

subsection \<open>Scoped error context\<close>

text \<open>
  C2 as stated fails: a scope whose body is a nested scope that fails ends with the
  nested frame on top, not its own; and a body that catches the failure of a nested scope
  exits normally with the nested frame left behind, so that the \<open>pop\<close> removes that frame
  and the scope's own frame stays.
\<close>

theorem add_error_context_nested_counterexample:
  "fst (add_error_context ''X''
          (add_error_context ''Y'' (\<lambda>s. (Inl (ValueError ''boom'') :: py_exc + unit, s))) [])
     = Inl (ValueError ''boom'')
   \<and> last (snd (add_error_context ''X''
          (add_error_context ''Y'' (\<lambda>s. (Inl (ValueError ''boom'') :: py_exc + unit, s))) []))
     \<noteq> ''X''
   \<and> add_error_context ''X''
        (\<lambda>s. (Inr (),
              snd (add_error_context ''Y'' (\<lambda>s. (Inl (ValueError ''boom'') :: py_exc + unit, s)) s)))
        []
     = (Inr (), [''X''])"
  by (simp add: add_error_context_def)

text \<open>
  C2, amended. For every context string \<open>X\<close>, starting stack and wrapped operation
  that ends with the stack \<open>stack @ X # extra\<close> (the frames \<open>extra\<close> are those the
  operation itself left, none for an operation that leaves the stack as it found it):
  if it fails with \<open>e\<close>, the scope fails with the same \<open>e\<close> and pops nothing, so
  \<open>X\<close> stays on the stack, below \<open>extra\<close>, and on top when \<open>extra\<close> is empty; if it
  exits normally and \<open>extra\<close> is empty, the scope returns its value and the stack is
  exactly the starting one.
\<close>

theorem add_error_context_scope:
  assumes "body (stack @ [X]) = (r, stack @ X # extra)"
  shows "(r = Inl e \<longrightarrow> add_error_context X body stack = (Inl e, stack @ X # extra))
       \<and> (r = Inr v \<and> extra = [] \<longrightarrow> add_error_context X body stack = (Inr v, stack))"
  using assms by (simp add: add_error_context_def)

theorem add_error_context_scope_witness:
  "add_error_context ''X'' (\<lambda>s. (Inl (SystemExit 3) :: py_exc + unit, s)) [''outer'']
     = (Inl (SystemExit 3), [''outer'', ''X''])
   \<and> add_error_context ''X'' (\<lambda>s. (Inr (7::nat), s)) [''outer''] = (Inr 7, [''outer''])"
  using add_error_context_scope
          [of "\<lambda>s. (Inl (SystemExit 3) :: py_exc + unit, s)" "[''outer'']" "''X''"
              "Inl (SystemExit 3)" "[]" "SystemExit 3"]
        add_error_context_scope
          [of "\<lambda>s. (Inr (7::nat), s)" "[''outer'']" "''X''" "Inr 7" "[]" _ 7]
  by simp

subsection \<open>Initialisation of the global configuration\<close>

text \<open>
  C3. Before \<open>init_global_config\<close> has run, the truth test and the length query of each
  of the four flags of the global config raise \<open>ValueError\<close>; after
  \<open>init_global_config config\<close>, each flag of \<open>get_global_config\<close> is the one
  supplied in \<open>config\<close>.
\<close>

theorem global_config_flags:
  "py_bool (pretend (get_global_config initial_globals)) = Inl (ValueError ''Should not be used'')
   \<and> py_bool (verbose (get_global_config initial_globals)) = Inl (ValueError ''Should not be used'')
   \<and> py_bool (quiet (get_global_config initial_globals)) = Inl (ValueError ''Should not be used'')
   \<and> py_bool (force (get_global_config initial_globals)) = Inl (ValueError ''Should not be used'')
   \<and> py_len (pretend (get_global_config initial_globals)) = Inl (ValueError ''Should not be used'')
   \<and> py_len (verbose (get_global_config initial_globals)) = Inl (ValueError ''Should not be used'')
   \<and> py_len (quiet (get_global_config initial_globals)) = Inl (ValueError ''Should not be used'')
   \<and> py_len (force (get_global_config initial_globals)) = Inl (ValueError ''Should not be used'')
   \<and> pretend (get_global_config (snd (init_global_config config tm g))) = pretend config
   \<and> verbose (get_global_config (snd (init_global_config config tm g))) = verbose config
   \<and> quiet (get_global_config (snd (init_global_config config tm g))) = quiet config
   \<and> force (get_global_config (snd (init_global_config config tm g))) = force config"
  by (simp add: get_global_config_def initial_globals_def ConfigBase_init_def
        init_global_config_def Let_def split: sum.split bool.split)

text \<open>
  C4. For every config whose \<open>verbose\<close> and \<open>quiet\<close> flags are booleans:
  \<open>init_global_config\<close> raises \<open>AssertionError\<close> when both are true and returns
  normally when at most one is.
\<close>

theorem init_global_config_mutually_exclusive:
  assumes "verbose config = Bool v" and "quiet config = Bool q"
  shows "fst (init_global_config config tm g) =
           (if v \<and> q then Inl (AssertionError ''mutually exclusive'') else Inr ())"
  using assms by (simp add: init_global_config_def Let_def split: bool.split)

theorem init_global_config_mutually_exclusive_witness:
  "fst (init_global_config (ConfigBase_init (Bool False) (Bool True) (Bool True) (Bool False))
          False initial_globals) = Inl (AssertionError ''mutually exclusive'')
   \<and> fst (init_global_config (ConfigBase_init (Bool False) (Bool True) (Bool False) (Bool False))
          False initial_globals) = Inr ()"
  using init_global_config_mutually_exclusive
          [of "ConfigBase_init (Bool False) (Bool True) (Bool True) (Bool False)" True True
              False initial_globals]
        init_global_config_mutually_exclusive
          [of "ConfigBase_init (Bool False) (Bool True) (Bool False) (Bool False)" True False
              False initial_globals]
  by (simp add: ConfigBase_init_def)

text \<open>
  C8 as stated fails: with test mode off in both calls, a second successful
  \<open>init_global_config\<close> replaces the instance installed by the first.
\<close>

theorem reinit_outside_test_mode_counterexample:
  "fst (init_global_config (ConfigBase_init (Bool False) (Bool True) (Bool False) (Bool False)) False
          initial_globals) = Inr ()
   \<and> fst (init_global_config (ConfigBase_init (Bool True) (Bool False) (Bool False) (Bool False)) False
          (snd (init_global_config
                  (ConfigBase_init (Bool False) (Bool True) (Bool False) (Bool False)) False
                  initial_globals))) = Inr ()
   \<and> get_global_config
        (snd (init_global_config (ConfigBase_init (Bool True) (Bool False) (Bool False) (Bool False)) False
          (snd (init_global_config
                  (ConfigBase_init (Bool False) (Bool True) (Bool False) (Bool False)) False
                  initial_globals))))
      = ConfigBase_init (Bool True) (Bool False) (Bool False) (Bool False)
   \<and> ConfigBase_init (Bool True) (Bool False) (Bool False) (Bool False)
      \<noteq> ConfigBase_init (Bool False) (Bool True) (Bool False) (Bool False)"
  by (simp add: init_global_config_def get_global_config_def ConfigBase_init_def
        initial_globals_def Let_def)

text \<open>
  C8, amended. A second call to \<open>init_global_config\<close> installs the config it is given,
  with that call's test-mode value, whatever the test-mode value of either call and
  whatever was installed before: nothing in the code forbids re-initialisation.
\<close>

theorem reinit_always_replaces:
  "get_global_config (snd (init_global_config c2 tm2 (snd (init_global_config c1 tm1 g))))
     = c2\<lparr>TEST_MODE := tm2\<rparr>"
  by (simp add: init_global_config_def get_global_config_def Let_def
        split: sum.split bool.split)

subsection \<open>ThreadJoiner\<close>

text \<open>
  C9. The joiner \<open>a + b\<close> holds the threads of \<open>a\<close> followed by those of \<open>b\<close>, and
  so does \<open>a\<close> after \<open>a += b\<close>.
\<close>

theorem thread_joiner_concatenation:
  "threads (ThreadJoiner_add a b) = threads a @ threads b
   \<and> threads (ThreadJoiner_iadd a b) = threads a @ threads b"
  by (simp add: ThreadJoiner_add_def ThreadJoiner_iadd_def)

text \<open>The two loops, on handles that are pairwise different.\<close>

lemma start_threads_all:
  "distinct ts \<Longrightarrow> \<forall>t\<in>set ts. lifecycle_of w t = NotStarted \<Longrightarrow>
   fst (start_threads ts w) = None
   \<and> trace (snd (start_threads ts w)) = trace w @ map ThreadStart ts
   \<and> (\<forall>t. lifecycle_of (snd (start_threads ts w)) t =
            (if t \<in> set ts then Started else lifecycle_of w t))"
proof (induction ts arbitrary: w)
  case Nil
  then show ?case by simp
next
  case (Cons a ts)
  let ?w1 = "w\<lparr>lifecycle_of := (lifecycle_of w)(a := Started), trace := trace w @ [ThreadStart a]\<rparr>"
  from Cons.prems have step: "start_threads (a # ts) w = start_threads ts ?w1"
    by (simp add: Thread_start_def)
  from Cons.prems have "distinct ts" and "\<forall>t\<in>set ts. lifecycle_of ?w1 t = NotStarted"
    by auto
  from Cons.IH [OF this] show ?case
    unfolding step by auto
qed

lemma join_threads_all:
  "distinct ts \<Longrightarrow> \<forall>t\<in>set ts. lifecycle_of w t = Started \<Longrightarrow>
   fst (join_threads running ts w) = None
   \<and> trace (snd (join_threads running ts w)) =
       trace w @ concat (map (\<lambda>t. (if running t then waiting_for t else []) @ [ThreadJoin t]) ts)
   \<and> (\<forall>t. lifecycle_of (snd (join_threads running ts w)) t =
            (if t \<in> set ts then Joined else lifecycle_of w t))"
proof (induction ts arbitrary: w)
  case Nil
  then show ?case by simp
next
  case (Cons a ts)
  let ?w2 = "w\<lparr>lifecycle_of := (lifecycle_of w)(a := Joined),
                trace := trace w @ (if running a then waiting_for a else []) @ [ThreadJoin a]\<rparr>"
  from Cons.prems have step: "join_threads running (a # ts) w = join_threads running ts ?w2"
    by (simp add: Thread_join_def Thread_is_alive_def)
  from Cons.prems have "distinct ts" and "\<forall>t\<in>set ts. lifecycle_of ?w2 t = Started"
    by auto
  from Cons.IH [OF this] show ?case
    unfolding step by auto
qed

text \<open>
  C6 as stated fails for a list that holds the same handle twice (the joiner's own
  \<open>+=\<close> builds such lists): the second \<open>start()\<close> raises in \<open>__enter__\<close>, so
  \<open>__exit__\<close> never runs and the scope is left with the thread started and not joined.
\<close>

theorem thread_joiner_duplicate_counterexample:
  "fst (with_ThreadJoiner \<lparr>threads = [Thread 1 ''a'', Thread 1 ''a'']\<rparr> (\<lambda>t. True)
          (Inr ()) [] \<lparr>lifecycle_of = (\<lambda>t. NotStarted), trace = []\<rparr>)
     = Inl (RuntimeError ''threads can only be started once'')
   \<and> trace (snd (with_ThreadJoiner \<lparr>threads = [Thread 1 ''a'', Thread 1 ''a'']\<rparr> (\<lambda>t. True)
          (Inr ()) [] \<lparr>lifecycle_of = (\<lambda>t. NotStarted), trace = []\<rparr>))
     = [ThreadStart (Thread 1 ''a'')]
   \<and> lifecycle_of (snd (with_ThreadJoiner \<lparr>threads = [Thread 1 ''a'', Thread 1 ''a'']\<rparr> (\<lambda>t. True)
          (Inr ()) [] \<lparr>lifecycle_of = (\<lambda>t. NotStarted), trace = []\<rparr>)) (Thread 1 ''a'')
     = Started"
  by (simp add: with_ThreadJoiner_def ThreadJoiner_enter_def Thread_start_def)

text \<open>
  C6, amended. For every joiner whose threads are pairwise different handles, none
  started yet, and every body, failing or not: the scope's outcome is the body's; the
  trace is the starts in list order, then what the body printed, then for each thread in
  list order the line "Waiting for '<name>' to complete" on standard output if the
  thread was still running, and its join; and at the end every held thread has been
  joined.
\<close>

theorem thread_joiner_scope:
  assumes "distinct (threads self)"
    and "\<forall>t\<in>set (threads self). lifecycle_of w t = NotStarted"
  shows "fst (with_ThreadJoiner self running body_result body_events w) = body_result
   \<and> trace (snd (with_ThreadJoiner self running body_result body_events w)) =
       trace w @ map ThreadStart (threads self) @ body_events
       @ concat (map (\<lambda>t. (if running t
                            then [Print Stdout
                                 [Coloured cyan
                                    [Str (''Waiting for '' @ [CHR 0x27]), Str (name t),
                                     Str (CHR 0x27 # '' to complete'')] []] '' '']
                            else [])
                           @ [ThreadJoin t])
                   (threads self))
   \<and> (\<forall>t\<in>set (threads self).
         lifecycle_of (snd (with_ThreadJoiner self running body_result body_events w)) t = Joined)"
proof -
  let ?s = "start_threads (threads self) w"
  let ?w1 = "(snd ?s)\<lparr>trace := trace (snd ?s) @ body_events\<rparr>"
  let ?j = "join_threads running (threads self) ?w1"
  have s: "fst ?s = None"
    "trace (snd ?s) = trace w @ map ThreadStart (threads self)"
    "\<forall>t. lifecycle_of (snd ?s) t = (if t \<in> set (threads self) then Started else lifecycle_of w t)"
    using start_threads_all [OF assms] by blast+
  have "\<forall>t\<in>set (threads self). lifecycle_of ?w1 t = Started"
    using s(3) by simp
  from join_threads_all [OF assms(1) this, of running]
  have j: "fst ?j = None"
    "trace (snd ?j) = trace ?w1
       @ concat (map (\<lambda>t. (if running t then waiting_for t else []) @ [ThreadJoin t]) (threads self))"
    "\<forall>t. lifecycle_of (snd ?j) t = (if t \<in> set (threads self) then Joined else lifecycle_of ?w1 t)"
    by blast+
  have eq: "with_ThreadJoiner self running body_result body_events w = (body_result, snd ?j)"
  proof -
    have a: "?s = (None, snd ?s)" using s(1) by (simp add: prod_eq_iff)
    have b: "?j = (None, snd ?j)" using j(1) by (simp add: prod_eq_iff)
    show ?thesis
      unfolding with_ThreadJoiner_def ThreadJoiner_enter_def ThreadJoiner_exit_def
      by (subst a, simp, subst b, simp)
  qed
  show ?thesis
    unfolding eq
    using s(2) j(2) [unfolded waiting_for_def status_update_def] j(3)
    by simp
qed

theorem thread_joiner_scope_witness:
  "fst (with_ThreadJoiner \<lparr>threads = [Thread 1 ''a'', Thread 2 ''b'', Thread 3 ''c'']\<rparr>
          (\<lambda>t. ident t = 2) (Inl (ValueError ''boom'') :: py_exc + unit) [PrintStack]
          \<lparr>lifecycle_of = (\<lambda>t. NotStarted), trace = []\<rparr>) = Inl (ValueError ''boom'')
   \<and> trace (snd (with_ThreadJoiner \<lparr>threads = [Thread 1 ''a'', Thread 2 ''b'', Thread 3 ''c'']\<rparr>
          (\<lambda>t. ident t = 2) (Inl (ValueError ''boom'') :: py_exc + unit) [PrintStack]
          \<lparr>lifecycle_of = (\<lambda>t. NotStarted), trace = []\<rparr>))
      = [ThreadStart (Thread 1 ''a''), ThreadStart (Thread 2 ''b''), ThreadStart (Thread 3 ''c''),
         PrintStack,
         ThreadJoin (Thread 1 ''a''),
         Print Stdout
           [Coloured cyan
              [Str (''Waiting for '' @ [CHR 0x27]), Str ''b'', Str (CHR 0x27 # '' to complete'')]
              []] '' '',
         ThreadJoin (Thread 2 ''b''), ThreadJoin (Thread 3 ''c'')]
   \<and> lifecycle_of (snd (with_ThreadJoiner \<lparr>threads = [Thread 1 ''a'', Thread 2 ''b'', Thread 3 ''c'']\<rparr>
          (\<lambda>t. ident t = 2) (Inl (ValueError ''boom'') :: py_exc + unit) [PrintStack]
          \<lparr>lifecycle_of = (\<lambda>t. NotStarted), trace = []\<rparr>)) (Thread 1 ''a'') = Joined
   \<and> lifecycle_of (snd (with_ThreadJoiner \<lparr>threads = [Thread 1 ''a'', Thread 2 ''b'', Thread 3 ''c'']\<rparr>
          (\<lambda>t. ident t = 2) (Inl (ValueError ''boom'') :: py_exc + unit) [PrintStack]
          \<lparr>lifecycle_of = (\<lambda>t. NotStarted), trace = []\<rparr>)) (Thread 2 ''b'') = Joined
   \<and> lifecycle_of (snd (with_ThreadJoiner \<lparr>threads = [Thread 1 ''a'', Thread 2 ''b'', Thread 3 ''c'']\<rparr>
          (\<lambda>t. ident t = 2) (Inl (ValueError ''boom'') :: py_exc + unit) [PrintStack]
          \<lparr>lifecycle_of = (\<lambda>t. NotStarted), trace = []\<rparr>)) (Thread 3 ''c'') = Joined"
  using thread_joiner_scope
          [of "\<lparr>threads = [Thread 1 ''a'', Thread 2 ''b'', Thread 3 ''c'']\<rparr>"
              "\<lparr>lifecycle_of = (\<lambda>t. NotStarted), trace = []\<rparr>"
              "\<lambda>t. ident t = 2" "Inl (ValueError ''boom'') :: py_exc + unit" "[PrintStack]"]
  by simp

subsection \<open>The yes/no prompt\<close>

text \<open>
  C10 as stated fails in its second half: in pretend mode with no terminal on standard
  input, the call returns \<open>force_result\<close> (here \<open>True\<close>), not \<open>default_result\<close>
  (here \<open>False\<close>), since the pretend and force tests come before the terminal test.
\<close>

theorem query_yes_no_pretend_without_terminal_counterexample:
  "fst (query_yes_no (ConfigBase_init (Bool True) (Bool False) (Bool False) (Bool False))
          ''Continue?'' False True None False []) = Inr True
   \<and> fst (query_yes_no (ConfigBase_init (Bool True) (Bool False) (Bool False) (Bool False))
          ''Continue?'' False True None False []) \<noteq> Inr False"
  by (simp add: query_yes_no_def ConfigBase_init_def)

text \<open>
  C10, amended. For every message, \<open>default_result\<close>, \<open>force_result\<close> and
  \<open>yes_no_str\<close>: when \<open>pretend\<close> is true, or \<open>pretend\<close> is false and
  \<open>force\<close> is true, \<open>query_yes_no\<close> returns \<open>force_result\<close> and its only
  event is the line with the prompt and the chosen answer (no input is read); when both
  are false and standard input is not a terminal, it returns \<open>default_result\<close> and
  prints and reads nothing.
\<close>

theorem query_yes_no_forced_or_default:
  "(pretend config = Bool True \<or> (pretend config = Bool False \<and> force config = Bool True) \<longrightarrow>
      query_yes_no config message default_result force_result yes_no_str isatty reply =
        (Inr force_result,
         [Print Stdout
            [Plain (message @ (case yes_no_str of
                                 None \<Rightarrow> (if default_result then '' [Y]/n '' else '' y/[N] '')
                               | Some s \<Rightarrow> s)),
             Coloured green [Str (if force_result then ''y'' else ''n'')] '' ''] []]))
   \<and> (pretend config = Bool False \<and> force config = Bool False \<and> \<not> isatty \<longrightarrow>
      query_yes_no config message default_result force_result yes_no_str isatty reply =
        (Inr default_result, []))"
  by (auto simp add: query_yes_no_def Let_def)

theorem query_yes_no_forced_or_default_witness:
  "query_yes_no (ConfigBase_init (Bool True) (Bool False) (Bool False) (Bool False))
       ''Continue?'' False True None False [] =
     (Inr True, [Print Stdout [Plain ''Continue? y/[N] '', Coloured green [Str ''y''] '' ''] []])
   \<and> query_yes_no (ConfigBase_init (Bool False) (Bool False) (Bool False) (Bool True))
       ''Continue?'' True False None True ''y'' =
     (Inr False, [Print Stdout [Plain ''Continue? [Y]/n '', Coloured green [Str ''n''] '' ''] []])
   \<and> query_yes_no (ConfigBase_init (Bool False) (Bool False) (Bool False) (Bool False))
       ''Continue?'' True False None False [] = (Inr True, [])"
  using query_yes_no_forced_or_default
          [of "ConfigBase_init (Bool True) (Bool False) (Bool False) (Bool False)"
              "''Continue?''" False True None False "[]"]
        query_yes_no_forced_or_default
          [of "ConfigBase_init (Bool False) (Bool False) (Bool False) (Bool True)"
              "''Continue?''" True False None True "''y''"]
        query_yes_no_forced_or_default
          [of "ConfigBase_init (Bool False) (Bool False) (Bool False) (Bool False)"
              "''Continue?''" True False None False "[]"]
  by (simp add: ConfigBase_init_def)

subsection \<open>The connectivity probe\<close>

text \<open>
  The probe sets \<open>result\<close> to true exactly when the connection was made, holds a
  socket exactly when one was created, and always calls \<open>socket.socket\<close>.
\<close>

lemma probe_try_result:
  "fst (snd (probe_try esc ctx config net)) = (net = Connected)"
  by (simp add: probe_try_def split: probe.split prod.split sum.split)

lemma probe_try_created:
  "fst (snd (snd (probe_try esc ctx config net))) = socket_created net"
  by (simp add: probe_try_def split: probe.split prod.split sum.split)

lemma probe_try_opens:
  "OpenSocket \<in> set (snd (snd (snd (probe_try esc ctx config net))))"
  by (simp add: probe_try_def split: probe.split prod.split sum.split)

lemma hwic_cases:
  "have_working_internet_connection esc ctx config now net closing =
     (if TEST_MODE config \<or> presume_connectivity config then (Inr True, config, [])
      else if cache_fresh config now
      then (Inr (internet_connection_last_check_result config), config, [])
      else
        (case (if socket_created net then closing else None) of
           Some e \<Rightarrow>
             (Inl e, config, snd (snd (snd (probe_try esc ctx config net))) @ [CloseSocket])
         | None \<Rightarrow>
             (Inr (net = Connected),
              config\<lparr>internet_connection_last_check_result := (net = Connected),
                      internet_connection_last_checked_at := Some now\<rparr>,
              snd (snd (snd (probe_try esc ctx config net)))
              @ (if socket_created net then [CloseSocket] else []))))"
proof -
  obtain pending result x out where p: "probe_try esc ctx config net = (pending, result, x, out)"
    by (cases "probe_try esc ctx config net") auto
  have "result = (net = Connected)" and "x = socket_created net"
    using probe_try_result [of esc ctx config net] probe_try_created [of esc ctx config net]
    by (simp_all add: p)
  then show ?thesis
    by (simp add: have_working_internet_connection_def finally_return_def p split: option.split)
qed

text \<open>Two float sums: an exact one, and one that a tie rounds down.\<close>

lemma float_sum_100_60: "float_add (Finite 100) (Finite 60) = Finite 160"
  by code_simp

lemma float_sum_rounds_down:
  "float_add (Finite (2147483618 + 1 / 4194304)) (Finite 60) = Finite 2147483678"
  by code_simp

text \<open>
  C7 as stated fails: \<open>x.close()\<close> stands in the \<open>finally\<close> clause before the
  \<open>return\<close>, so an exception it raises goes to the caller, and the cache is not
  written.
\<close>

theorem connectivity_close_raises_counterexample:
  "have_working_internet_connection [] []
       (ConfigBase_init (Bool False) (Bool False) (Bool False) (Bool False)) (Finite 100)
       Connected (Some (OSError ''close failed''))
     = (Inl (OSError ''close failed''),
        ConfigBase_init (Bool False) (Bool False) (Bool False) (Bool False),
        [OpenSocket, CloseSocket])"
  by (simp add: have_working_internet_connection_def probe_try_def cache_fresh_def
        ConfigBase_init_def)

text \<open>
  C7, amended. In every call in which \<open>x.close()\<close> does not raise (or no socket was
  created) \<open>have_working_internet_connection\<close> returns a boolean: true under test
  mode or presumed connectivity, the cached value on a cache hit, and otherwise whether
  the connection was made, whatever was raised in the \<open>try\<close> statement. In
  particular, when the probe raises an \<open>Exception\<close> that is not an \<open>OSError\<close> and
  \<open>pretend\<close> is false, the handler's \<open>fatal_error\<close> prints the "Fatal error"
  line with the message and raises \<open>SystemExit 3\<close>, which is pending when the
  \<open>finally\<close> clause starts; the clause closes the socket, writes the cache and
  returns \<open>False\<close>. When \<open>x.close()\<close> raises in a probing call, that exception
  is what the caller gets, and the config is left as it was.
\<close>

theorem connectivity_never_raises:
  "(closing = None \<or> \<not> socket_created net \<longrightarrow>
      fst (have_working_internet_connection esc ctx config now net closing) =
        Inr (if TEST_MODE config \<or> presume_connectivity config then True
             else if cache_fresh config now then internet_connection_last_check_result config
             else net = Connected))
   \<and> (\<not> TEST_MODE config \<and> \<not> presume_connectivity config \<and> \<not> cache_fresh config now
        \<and> pretend config = Bool False \<and> is_Exception ex \<and> \<not> is_OSError ex
        \<and> (created \<longrightarrow> closing = None) \<longrightarrow>
      fst (probe_try esc ctx config (Raised created ex)) = Some (SystemExit 3)
      \<and> have_working_internet_connection esc ctx config now (Raised created ex) closing =
          (Inr False,
           config\<lparr>internet_connection_last_check_result := False,
                   internet_connection_last_checked_at := Some now\<rparr>,
           [OpenSocket,
            Print Stderr
              [Coloured red
                 [Str (if ctx = [] then ''Fatal error:''
                       else ''Fatal error '' @ last ctx @ esc @ '':''),
                  Str ''Something went wrong while checking for internet connection'', Exc ex]
                 '' ''] '' '']
           @ (if created then [CloseSocket] else [])))
   \<and> (\<not> TEST_MODE config \<and> \<not> presume_connectivity config \<and> \<not> cache_fresh config now
        \<and> socket_created net \<and> closing = Some e \<longrightarrow>
      fst (have_working_internet_connection esc ctx config now net closing) = Inl e
      \<and> fst (snd (have_working_internet_connection esc ctx config now net closing)) = config)"
proof -
  have a: "fst (have_working_internet_connection esc ctx config now net closing) =
        Inr (if TEST_MODE config \<or> presume_connectivity config then True
             else if cache_fresh config now then internet_connection_last_check_result config
             else net = Connected)"
    if "closing = None \<or> \<not> socket_created net"
    using that by (auto simp add: hwic_cases)
  have b: "fst (probe_try esc ctx config (Raised created ex)) = Some (SystemExit 3)
      \<and> have_working_internet_connection esc ctx config now (Raised created ex) closing =
          (Inr False,
           config\<lparr>internet_connection_last_check_result := False,
                   internet_connection_last_checked_at := Some now\<rparr>,
           [OpenSocket,
            Print Stderr
              [Coloured red
                 [Str (if ctx = [] then ''Fatal error:''
                       else ''Fatal error '' @ last ctx @ esc @ '':''),
                  Str ''Something went wrong while checking for internet connection'', Exc ex]
                 '' ''] '' '']
           @ (if created then [CloseSocket] else []))"
    if "\<not> TEST_MODE config" "\<not> presume_connectivity config" "\<not> cache_fresh config now"
       "pretend config = Bool False" "is_Exception ex" "\<not> is_OSError ex"
       "created \<longrightarrow> closing = None"
    using that
    by (simp add: have_working_internet_connection_def probe_try_def fatal_error_def
          finally_return_def default_exit_code_def fmt_add_error_context_def
          maybe_add_space_def)
  have c: "fst (have_working_internet_connection esc ctx config now net closing) = Inl e
      \<and> fst (snd (have_working_internet_connection esc ctx config now net closing)) = config"
    if "\<not> TEST_MODE config" "\<not> presume_connectivity config" "\<not> cache_fresh config now"
       "socket_created net" "closing = Some e"
    using that by (simp add: hwic_cases)
  from a b c show ?thesis by blast
qed

theorem connectivity_never_raises_witness:
  "have_working_internet_connection [] []
       (ConfigBase_init (Bool False) (Bool False) (Bool False) (Bool False)) (Finite 100)
       (Raised True (ValueError ''bad'')) None =
     (Inr False,
      (ConfigBase_init (Bool False) (Bool False) (Bool False) (Bool False))
        \<lparr>internet_connection_last_check_result := False,
         internet_connection_last_checked_at := Some (Finite 100)\<rparr>,
      [OpenSocket,
       Print Stderr
         [Coloured red
            [Str ''Fatal error:'',
             Str ''Something went wrong while checking for internet connection'',
             Exc (ValueError ''bad'')] '' ''] '' '',
       CloseSocket])
   \<and> fst (probe_try [] [] (ConfigBase_init (Bool False) (Bool False) (Bool False) (Bool False))
            (Raised True (ValueError ''bad''))) = Some (SystemExit 3)
   \<and> fst (have_working_internet_connection [] []
       (ConfigBase_init (Bool False) (Bool False) (Bool False) (Bool False)) (Finite 100)
       (Raised True KeyboardInterrupt) None) = Inr False
   \<and> fst (have_working_internet_connection [] []
       (ConfigBase_init (Bool False) (Bool False) (Bool False) (Bool False)) (Finite 100)
       (Raised True (OSError ''refused'')) (Some (OSError ''close failed'')))
      = Inl (OSError ''close failed'')"
  using connectivity_never_raises
          [of None "Raised True (ValueError ''bad'')" "[]" "[]"
              "ConfigBase_init (Bool False) (Bool False) (Bool False) (Bool False)" "Finite 100"
              "ValueError ''bad''" True]
        connectivity_never_raises
          [of None "Raised True KeyboardInterrupt" "[]" "[]"
              "ConfigBase_init (Bool False) (Bool False) (Bool False) (Bool False)" "Finite 100"]
        connectivity_never_raises
          [of "Some (OSError ''close failed'')" "Raised True (OSError ''refused'')" "[]" "[]"
              "ConfigBase_init (Bool False) (Bool False) (Bool False) (Bool False)" "Finite 100"
              _ _ "OSError ''close failed''"]
  by (simp add: ConfigBase_init_def cache_fresh_def)

text \<open>
  The truth test of the timestamp reads a check recorded at exactly \<open>0.0\<close> as no
  check at all; a clock gives that value only at the instant of the epoch.
\<close>

lemma cache_fresh_zero_timestamp:
  "internet_connection_last_checked_at config = Some (Finite 0) \<Longrightarrow> \<not> cache_fresh config now"
  by (simp add: cache_fresh_def)

text \<open>
  C5 as stated fails where the float sum \<open>checked + 60.0\<close> rounds down. A first
  call at \<open>2 ^ 31 - 30 + 2 ^ -22\<close> seconds probes, returns true and records that
  time. The sum with \<open>60.0\<close> lies halfway between two floats and rounds to
  \<open>2 ^ 31 + 30\<close>, so a second call at \<open>2 ^ 31 + 30\<close>, less than 60 seconds after
  the recorded time, is not below it: the call probes again and returns false.
\<close>

theorem connectivity_cache_rounding_counterexample:
  "have_working_internet_connection [] []
       (ConfigBase_init (Bool False) (Bool False) (Bool False) (Bool False))
       (Finite (2147483618 + 1 / 4194304)) Connected None
     = (Inr True,
        (ConfigBase_init (Bool False) (Bool False) (Bool False) (Bool False))
          \<lparr>internet_connection_last_check_result := True,
           internet_connection_last_checked_at := Some (Finite (2147483618 + 1 / 4194304))\<rparr>,
        [OpenSocket, CloseSocket])
   \<and> have_working_internet_connection [] []
       ((ConfigBase_init (Bool False) (Bool False) (Bool False) (Bool False))
          \<lparr>internet_connection_last_check_result := True,
           internet_connection_last_checked_at := Some (Finite (2147483618 + 1 / 4194304))\<rparr>)
       (Finite 2147483678) (Raised True (OSError ''unreachable'')) None
     = (Inr False,
        (ConfigBase_init (Bool False) (Bool False) (Bool False) (Bool False))
          \<lparr>internet_connection_last_check_result := False,
           internet_connection_last_checked_at := Some (Finite 2147483678)\<rparr>,
        [OpenSocket, CloseSocket])
   \<and> (2147483678 :: rat) - (2147483618 + 1 / 4194304) < 60"
  using float_sum_rounds_down
  by (simp add: have_working_internet_connection_def probe_try_def cache_fresh_def
        finally_return_def ConfigBase_init_def del: float_add.simps)

text \<open>
  C5, amended. Take a config with test mode and presumed connectivity off, a first call
  on it that returned, and the check time \<open>t\<close> recorded in the config after that
  call, \<open>t\<close> not zero. A second call whose clock reading is below the float sum
  \<open>t + 60.0\<close> returns what the first returned, with no event at all (no probe) and
  the config unchanged, whatever the network would answer. Any other second call probes
  again: unless \<open>x.close()\<close> raises, its result is that of the new probe alone, and
  it stores the new time and result; when \<open>x.close()\<close> raises, the caller gets that
  exception and the config is unchanged. The boolean the first call returned is the one
  recorded, and when the first call probed, the recorded time is its own. Whenever the
  float sum is exact, the test "below \<open>t + 60.0\<close>" is "less than 60 seconds after
  \<open>t\<close>".
\<close>

theorem connectivity_cache:
  assumes "\<not> TEST_MODE c0" and "\<not> presume_connectivity c0"
    and "have_working_internet_connection esc ctx c0 t1 net1 cl1 = (Inr b1, c1, ev1)"
    and "internet_connection_last_checked_at c1 = Some t" and "float_truthy t"
  shows "(float_lt t2 (float_add t (Finite 60)) \<longrightarrow>
            have_working_internet_connection esc' ctx' c1 t2 net2 cl2 = (Inr b1, c1, []))
       \<and> (\<not> float_lt t2 (float_add t (Finite 60)) \<longrightarrow>
            (\<exists>ev2. OpenSocket \<in> set ev2 \<and>
               have_working_internet_connection esc' ctx' c1 t2 net2 cl2 =
                 (case (if socket_created net2 then cl2 else None) of
                    Some e \<Rightarrow> (Inl e, c1, ev2)
                  | None \<Rightarrow>
                      (Inr (net2 = Connected),
                       c1\<lparr>internet_connection_last_check_result := (net2 = Connected),
                           internet_connection_last_checked_at := Some t2\<rparr>, ev2))))
       \<and> b1 = internet_connection_last_check_result c1
       \<and> (OpenSocket \<in> set ev1 \<longrightarrow> t = t1)
       \<and> (t = Finite x \<and> t2 = Finite y \<and> float_add t (Finite 60) = Finite (x + 60) \<longrightarrow>
            float_lt t2 (float_add t (Finite 60)) = (y < x + 60))"
proof -
  have flags: "\<not> TEST_MODE c1" "\<not> presume_connectivity c1"
    and b1: "b1 = internet_connection_last_check_result c1"
    and probed: "OpenSocket \<in> set ev1 \<longrightarrow> t = t1"
    using assms by (auto simp add: hwic_cases split: if_splits option.splits)
  have a: "have_working_internet_connection esc' ctx' c1 t2 net2 cl2 = (Inr b1, c1, [])"
    if "float_lt t2 (float_add t (Finite 60))"
    using that flags b1 assms(4,5) by (simp add: hwic_cases cache_fresh_def)
  have b: "\<exists>ev2. OpenSocket \<in> set ev2 \<and>
               have_working_internet_connection esc' ctx' c1 t2 net2 cl2 =
                 (case (if socket_created net2 then cl2 else None) of
                    Some e \<Rightarrow> (Inl e, c1, ev2)
                  | None \<Rightarrow>
                      (Inr (net2 = Connected),
                       c1\<lparr>internet_connection_last_check_result := (net2 = Connected),
                           internet_connection_last_checked_at := Some t2\<rparr>, ev2))"
    if "\<not> float_lt t2 (float_add t (Finite 60))"
  proof -
    have nf: "\<not> cache_fresh c1 t2"
      using that assms(4) by (simp add: cache_fresh_def)
    let ?out = "snd (snd (snd (probe_try esc' ctx' c1 net2)))"
    show ?thesis
    proof (cases "if socket_created net2 then cl2 else None")
      case None
      then have "have_working_internet_connection esc' ctx' c1 t2 net2 cl2 =
                   (Inr (net2 = Connected),
                    c1\<lparr>internet_connection_last_check_result := (net2 = Connected),
                        internet_connection_last_checked_at := Some t2\<rparr>,
                    ?out @ (if socket_created net2 then [CloseSocket] else []))"
        using flags nf by (simp add: hwic_cases)
      moreover have "OpenSocket \<in> set (?out @ (if socket_created net2 then [CloseSocket] else []))"
        using probe_try_opens [of esc' ctx' c1 net2] by simp
      ultimately show ?thesis
        using None by auto
    next
      case (Some e)
      then have "have_working_internet_connection esc' ctx' c1 t2 net2 cl2 =
                   (Inl e, c1, ?out @ [CloseSocket])"
        using flags nf by (simp add: hwic_cases)
      moreover have "OpenSocket \<in> set (?out @ [CloseSocket])"
        using probe_try_opens [of esc' ctx' c1 net2] by simp
      ultimately show ?thesis
        using Some by auto
    qed
  qed
  have d: "float_lt t2 (float_add t (Finite 60)) = (y < x + 60)"
    if "t = Finite x \<and> t2 = Finite y \<and> float_add t (Finite 60) = Finite (x + 60)"
  proof -
    from that have "float_add t (Finite 60) = Finite (x + 60)" and "t2 = Finite y"
      by blast+
    then show ?thesis
      by simp
  qed
  from a b b1 probed d show ?thesis by blast
qed

theorem connectivity_cache_witness:
  "have_working_internet_connection [] []
       ((ConfigBase_init (Bool False) (Bool False) (Bool False) (Bool False))
          \<lparr>internet_connection_last_check_result := True,
           internet_connection_last_checked_at := Some (Finite 100)\<rparr>) (Finite 130)
       (Raised True (OSError ''unreachable'')) None =
     (Inr True,
      (ConfigBase_init (Bool False) (Bool False) (Bool False) (Bool False))
          \<lparr>internet_connection_last_check_result := True,
           internet_connection_last_checked_at := Some (Finite 100)\<rparr>, [])
   \<and> fst (have_working_internet_connection [] []
       ((ConfigBase_init (Bool False) (Bool False) (Bool False) (Bool False))
          \<lparr>internet_connection_last_check_result := True,
           internet_connection_last_checked_at := Some (Finite 100)\<rparr>) (Finite 160)
       (Raised True (OSError ''unreachable'')) None) = Inr False"
proof -
  let ?c0 = "ConfigBase_init (Bool False) (Bool False) (Bool False) (Bool False)"
  let ?c1 = "?c0\<lparr>internet_connection_last_check_result := True,
                  internet_connection_last_checked_at := Some (Finite 100)\<rparr>"
  let ?down = "Raised True (OSError ''unreachable'')"
  have flags: "\<not> TEST_MODE ?c0" "\<not> presume_connectivity ?c0"
    by (simp_all add: ConfigBase_init_def)
  have first: "have_working_internet_connection [] [] ?c0 (Finite 100) Connected None
                 = (Inr True, ?c1, [OpenSocket, CloseSocket])"
    by (simp add: have_working_internet_connection_def cache_fresh_def probe_try_def
          finally_return_def ConfigBase_init_def)
  have rec: "internet_connection_last_checked_at ?c1 = Some (Finite 100)"
    by simp
  have nz: "float_truthy (Finite 100)"
    by simp
  note w = connectivity_cache [OF flags first rec nz, where ?esc' = "[]" and ?ctx' = "[]"
             and ?net2.0 = ?down and ?cl2.0 = None]
  have early: "float_lt (Finite 130) (float_add (Finite 100) (Finite 60))"
    and late: "\<not> float_lt (Finite 160) (float_add (Finite 100) (Finite 60))"
    using float_sum_100_60 by (simp_all del: float_add.simps)
  from w [of "Finite 130"] early
  have a: "have_working_internet_connection [] [] ?c1 (Finite 130) ?down None = (Inr True, ?c1, [])"
    by blast
  from w [of "Finite 160"] late obtain ev2 where
    "have_working_internet_connection [] [] ?c1 (Finite 160) ?down None =
       (case (if socket_created ?down then None else None) of
          Some e \<Rightarrow> (Inl e, ?c1, ev2)
        | None \<Rightarrow>
            (Inr (?down = Connected),
             ?c1\<lparr>internet_connection_last_check_result := (?down = Connected),
                  internet_connection_last_checked_at := Some (Finite 160)\<rparr>, ev2))"
    by blast
  then have b: "fst (have_working_internet_connection [] [] ?c1 (Finite 160) ?down None) = Inr False"
    by simp
  from a b show ?thesis
    by (rule conjI)
qed

end
